theory Spec2Isabelle
  imports Main
begin

section \<open>Python values, exceptions and the builtins the configuration module calls\<close>

text \<open>
  The module \<open>grand_trade_auto/general/config.py\<close> is dynamically typed: \<open>cast_var\<close>
  takes a variable "of an unknown type" and a cast type that is compared with the members
  of the enum \<open>CastType\<close>.  Values are therefore one datatype: \<open>None\<close>, integers
  (unbounded), floats, strings and the members of \<open>CastType\<close>.  Strings are lists of
  8-bit characters, read as the code points below 256 of Python's \<open>str\<close>.

  An exception is a value of \<open>pyexc\<close>; a computation that may raise returns
  \<open>pyexc + 'a\<close> with \<open>Inl\<close> for the raised exception.  The specification's
  \<open>UnsupportedKindError\<close> is the code's \<open>TypeError\<close>, its \<open>CastError\<close> the code's
  \<open>ValueError\<close> and its \<open>InvalidCriteriaError\<close> the code's \<open>AssertionError\<close>.
\<close>

datatype pyexc =
  TypeError | ValueError | OverflowError | AssertionError | AttributeError |
  OSError | FileNotFoundError | IsADirectoryError | NotADirectoryError | PermissionError |
  ParsingError

definition is_OSError :: "pyexc \<Rightarrow> bool" where
  \<comment> \<open>\<open>isinstance(e, OSError)\<close>: what \<open>except OSError\<close> catches\<close>
  "is_OSError e = (e \<in> set [OSError, FileNotFoundError, IsADirectoryError,
      NotADirectoryError, PermissionError])"

datatype CastType = CastType_INT | CastType_FLOAT | CastType_STRING

datatype 'f pyval =
  PyNone | PyInt int | PyFloat 'f | PyStr string | PyCastType CastType

text \<open>
  The binary floating-point builtins are not part of the repository and are not modelled:
  every function below takes them as a parameter and every theorem holds for all of them.
  \<open>float_of_str\<close> is \<open>float(s)\<close> on a string (\<open>None\<close>: \<open>ValueError\<close>),
  \<open>float_of_int\<close> is \<open>float(n)\<close> on an integer (\<open>None\<close>: \<open>OverflowError\<close>),
  \<open>int_of_float\<close> is \<open>int(x)\<close> on a float (\<open>ValueError\<close> on a NaN,
  \<open>OverflowError\<close> on an infinity), \<open>str_of_float\<close> is \<open>str(x)\<close> and
  \<open>float_eq\<close> is \<open>x == y\<close> on two floats.
\<close>

record 'f float_builtins =
  float_of_str :: "string \<Rightarrow> 'f option"
  float_of_int :: "int \<Rightarrow> 'f option"
  int_of_float :: "'f \<Rightarrow> pyexc + int"
  str_of_float :: "'f \<Rightarrow> string"
  float_eq :: "'f \<Rightarrow> 'f \<Rightarrow> bool"

subsection \<open>\<open>str.strip\<close>, \<open>str.lower\<close>, \<open>str.split\<close>\<close>

definition py_isspace :: "char \<Rightarrow> bool" where
  \<comment> \<open>the code points below 256 for which \<open>str.isspace\<close> holds\<close>
  "py_isspace c = (c \<in> set [CHR 0x09, CHR 0x0A, CHR 0x0B, CHR 0x0C, CHR 0x0D,
      CHR 0x1C, CHR 0x1D, CHR 0x1E, CHR 0x1F, CHR 0x20, CHR 0x85, CHR 0xA0])"

definition strip_while :: "(char \<Rightarrow> bool) \<Rightarrow> string \<Rightarrow> string" where
  "strip_while p s = rev (dropWhile p (rev (dropWhile p s)))"

definition py_strip :: "string \<Rightarrow> string" where
  \<comment> \<open>\<open>s.strip()\<close>\<close>
  "py_strip s = strip_while py_isspace s"

definition py_strip_chars :: "string \<Rightarrow> string \<Rightarrow> string" where
  \<comment> \<open>\<open>s.strip(chars)\<close>: every leading and trailing character that occurs in \<open>chars\<close> goes\<close>
  "py_strip_chars chars s = strip_while (\<lambda>c. c \<in> set chars) s"

definition py_lower_char :: "char \<Rightarrow> char" where
  "py_lower_char c = (let n = (of_char c :: nat) in
     if (65 \<le> n \<and> n \<le> 90) \<or> (192 \<le> n \<and> n \<le> 222 \<and> n \<noteq> 215)
     then char_of (n + 32) else c)"

definition py_lower :: "string \<Rightarrow> string" where
  \<comment> \<open>\<open>s.lower()\<close>\<close>
  "py_lower s = map py_lower_char s"

function split_on :: "string \<Rightarrow> string \<Rightarrow> string list" where
  "split_on sep [] = [[]]"
| "split_on sep (c # cs) =
     (if sep \<noteq> [] \<and> take (length sep) (c # cs) = sep
      then [] # split_on sep (drop (length sep) (c # cs))
      else (let r = split_on sep cs in (c # hd r) # tl r))"
  by pat_completeness auto
termination
  by (relation "measure (\<lambda>(sep, s). length s)") auto

definition py_split :: "string \<Rightarrow> string \<Rightarrow> pyexc + string list" where
  \<comment> \<open>\<open>s.split(sep)\<close> for a string \<open>sep\<close>: the empty separator raises \<open>ValueError\<close>\<close>
  "py_split s sep = (if sep = [] then Inl ValueError else Inr (split_on sep s))"

subsection \<open>\<open>int\<close>, \<open>float\<close> and \<open>str\<close>\<close>

definition int_isspace :: "char \<Rightarrow> bool" where
  \<comment> \<open>the whitespace \<open>int(s)\<close> skips around the literal\<close>
  "int_isspace c = (c \<in> set [CHR 0x09, CHR 0x0A, CHR 0x0B, CHR 0x0C, CHR 0x0D,
      CHR 0x20, CHR 0x85, CHR 0xA0])"

definition is_digit :: "char \<Rightarrow> bool" where
  "is_digit c = (48 \<le> (of_char c :: nat) \<and> (of_char c :: nat) \<le> 57)"

definition digit_val :: "char \<Rightarrow> nat" where
  "digit_val c = of_char c - 48"

fun int_digits :: "bool \<Rightarrow> nat \<Rightarrow> string \<Rightarrow> nat option" where
  \<comment> \<open>decimal digits with single underscores between digits; the flag says that a
      digit has to come next\<close>
  "int_digits need acc [] = (if need then None else Some acc)"
| "int_digits need acc (c # cs) =
     (if is_digit c then int_digits False (10 * acc + digit_val c) cs
      else if c = CHR ''_'' \<and> \<not> need then int_digits True acc cs
      else None)"

definition int_of_str :: "string \<Rightarrow> int option" where
  \<comment> \<open>\<open>int(s)\<close> on a string, base 10; \<open>None\<close> stands for \<open>ValueError\<close>\<close>
  "int_of_str s =
     (case strip_while int_isspace s of
        [] \<Rightarrow> None
      | c # cs \<Rightarrow>
          if c = CHR ''+'' then map_option int (int_digits True 0 cs)
          else if c = CHR ''-'' then map_option (\<lambda>n. - int n) (int_digits True 0 cs)
          else map_option int (int_digits True 0 (c # cs)))"

fun str_of_nat :: "nat \<Rightarrow> string" where
  "str_of_nat n =
     (if n < 10 then [char_of (48 + n)]
      else str_of_nat (n div 10) @ [char_of (48 + n mod 10)])"

declare str_of_nat.simps [simp del]

definition str_of_int :: "int \<Rightarrow> string" where
  "str_of_int i = (if i < 0 then CHR ''-'' # str_of_nat (nat (- i)) else str_of_nat (nat i))"

fun py_int :: "'f float_builtins \<Rightarrow> 'f pyval \<Rightarrow> pyexc + int" where
  "py_int fb PyNone = Inl TypeError"
| "py_int fb (PyInt n) = Inr n"
| "py_int fb (PyFloat x) = int_of_float fb x"
| "py_int fb (PyStr s) = (case int_of_str s of None \<Rightarrow> Inl ValueError | Some n \<Rightarrow> Inr n)"
| "py_int fb (PyCastType k) = Inl TypeError"

fun py_float :: "'f float_builtins \<Rightarrow> 'f pyval \<Rightarrow> pyexc + 'f" where
  "py_float fb PyNone = Inl TypeError"
| "py_float fb (PyInt n) =
     (case float_of_int fb n of None \<Rightarrow> Inl OverflowError | Some x \<Rightarrow> Inr x)"
| "py_float fb (PyFloat x) = Inr x"
| "py_float fb (PyStr s) =
     (case float_of_str fb s of None \<Rightarrow> Inl ValueError | Some x \<Rightarrow> Inr x)"
| "py_float fb (PyCastType k) = Inl TypeError"

fun py_str :: "'f float_builtins \<Rightarrow> 'f pyval \<Rightarrow> string" where
  "py_str fb PyNone = ''None''"
| "py_str fb (PyInt n) = str_of_int n"
| "py_str fb (PyFloat x) = str_of_float fb x"
| "py_str fb (PyStr s) = s"
| "py_str fb (PyCastType CastType_INT) = ''CastType.INT''"
| "py_str fb (PyCastType CastType_FLOAT) = ''CastType.FLOAT''"
| "py_str fb (PyCastType CastType_STRING) = ''CastType.STRING''"

definition no_float :: "unit float_builtins" where
  \<comment> \<open>float builtins for evaluating examples in which no float occurs\<close>
  "no_float = \<lparr> float_of_str = (\<lambda>s. None), float_of_int = (\<lambda>n. None),
       int_of_float = (\<lambda>x. Inl ValueError), str_of_float = (\<lambda>x. ''nan''),
       float_eq = (\<lambda>x y. False) \<rparr>"




section \<open>\<open>cast_var\<close>\<close>

text \<open>
  \<^verbatim>\<open>
  def cast_var(var, cast_type, fallback_to_original=False):
      try:
          if cast_type == CastType.INT:
              return int(var)
          if cast_type == CastType.FLOAT:
              return float(var)
          if cast_type == CastType.STRING:
              return str(var)
          raise TypeError('Cast failed -- unsupported type.')
      except (TypeError, ValueError):
          if fallback_to_original:
              return var
          raise
  \<close>
  \<open>cast_var_try\<close> is the body of the \<open>try\<close>; \<open>cast_var\<close> adds the handler, which
  catches \<open>TypeError\<close> and \<open>ValueError\<close> and lets every other exception pass.
\<close>

definition cast_var_try :: "'f float_builtins \<Rightarrow> 'f pyval \<Rightarrow> 'f pyval \<Rightarrow> pyexc + 'f pyval" where
  "cast_var_try fb var cast_type =
     (if cast_type = PyCastType CastType_INT then map_sum id PyInt (py_int fb var)
      else if cast_type = PyCastType CastType_FLOAT then map_sum id PyFloat (py_float fb var)
      else if cast_type = PyCastType CastType_STRING then Inr (PyStr (py_str fb var))
      else Inl TypeError)"

definition cast_var :: "'f float_builtins \<Rightarrow> 'f pyval \<Rightarrow> 'f pyval \<Rightarrow> bool \<Rightarrow> pyexc + 'f pyval" where
  "cast_var fb var cast_type fallback_to_original =
     (case cast_var_try fb var cast_type of
        Inr v \<Rightarrow> Inr v
      | Inl e \<Rightarrow>
          if e = TypeError \<or> e = ValueError
          then (if fallback_to_original then Inr var else Inl e)
          else Inl e)"

section \<open>\<open>parse_list_from_conf_string\<close>\<close>

text \<open>
  \<^verbatim>\<open>
  def parse_list_from_conf_string(conf_str, val_type, delim=',', strip_quotes=False):
      if not conf_str:
          return []
      val_raw_list = conf_str.split(delim)
      list_out = []
      for val in val_raw_list:
          try:
              if strip_quotes:
                  val = val.strip().strip('\'"')
              cast_val = cast_var(val.strip(), val_type)
              list_out.append(cast_val)
          except (ValueError, TypeError):
              pass
      return list_out
  \<close>
  \<open>conf_str\<close> is a string or \<open>None\<close>, \<open>delim\<close> a string.  The call of
  \<open>split\<close> stands before the loop, outside every \<open>try\<close>.
\<close>

definition quote_chars :: string where
  \<comment> \<open>the argument \<open>'\'"'\<close> of the inner \<open>strip\<close>\<close>
  "quote_chars = [CHR 0x27, CHR 0x22]"

definition conf_token :: "bool \<Rightarrow> string \<Rightarrow> string" where
  \<comment> \<open>the string handed to \<open>cast_var\<close> for the raw token \<open>val\<close>\<close>
  "conf_token strip_quotes val =
     (let val' = (if strip_quotes then py_strip_chars quote_chars (py_strip val) else val)
      in py_strip val')"

fun parse_list_loop ::
  "'f float_builtins \<Rightarrow> 'f pyval \<Rightarrow> bool \<Rightarrow> string list \<Rightarrow> 'f pyval list \<Rightarrow> pyexc + 'f pyval list"
where
  "parse_list_loop fb val_type strip_quotes [] list_out = Inr list_out"
| "parse_list_loop fb val_type strip_quotes (val # val_raw_list) list_out =
     (case cast_var fb (PyStr (conf_token strip_quotes val)) val_type False of
        Inr cast_val \<Rightarrow>
          parse_list_loop fb val_type strip_quotes val_raw_list (list_out @ [cast_val])
      | Inl e \<Rightarrow>
          if e = ValueError \<or> e = TypeError
          then parse_list_loop fb val_type strip_quotes val_raw_list list_out
          else Inl e)"

definition parse_list_from_conf_string ::
  "'f float_builtins \<Rightarrow> string option \<Rightarrow> 'f pyval \<Rightarrow> string \<Rightarrow> bool \<Rightarrow> pyexc + 'f pyval list"
where
  "parse_list_from_conf_string fb conf_str val_type delim strip_quotes =
     (case conf_str of
        None \<Rightarrow> Inr []
      | Some s \<Rightarrow>
          if s = [] then Inr []
          else (case py_split s delim of
                  Inl e \<Rightarrow> Inl e
                | Inr val_raw_list \<Rightarrow>
                    parse_list_loop fb val_type strip_quotes val_raw_list []))"

definition cast_ok :: "'f float_builtins \<Rightarrow> 'f pyval \<Rightarrow> string \<Rightarrow> 'f pyval option" where
  \<comment> \<open>the value of a token whose cast succeeds, \<open>None\<close> for a token whose cast raises\<close>
  "cast_ok fb val_type tok =
     (case cast_var fb (PyStr tok) val_type False of Inr v \<Rightarrow> Some v | Inl e \<Rightarrow> None)"

definition spec_strip_one_quote_layer :: "string \<Rightarrow> string" where
  \<comment> \<open>the specification's reading of the quote stripping: one layer of matching
      leading and trailing quote characters, nothing else\<close>
  "spec_strip_one_quote_layer t =
     (if 2 \<le> length t \<and> hd t = last t \<and> hd t \<in> set quote_chars
      then butlast (tl t) else t)"

section \<open>Reading configuration files\<close>

text \<open>
  \<^verbatim>\<open>
  def read_conf_file_fake_header(conf_rel_file,
          conf_base_dir=dirs.get_conf_path(), fake_section='fake',):
      conf_file = os.path.join(conf_base_dir, conf_rel_file)
      parser = configparser.ConfigParser()
      with open(conf_file, encoding="utf_8") as file:
          parser.read_file(itertools.chain(['[' + fake_section + ']'], file))
      return parser

  def read_conf_file(conf_rel_file, conf_base_dir=dirs.get_conf_path()):
      conf_file = os.path.join(conf_base_dir, conf_rel_file)
      parser = configparser.ConfigParser()
      parser.read(conf_file)
      return parser
  \<close>
  \<open>open(path, encoding=...)\<close> raises \<open>ValueError\<close> on a path that holds a NUL
  character, before the operating system is asked; otherwise the file system answers
  with an error, raised as the matching subclass of \<open>OSError\<close>, or with the file.  An
  open text file is the lines its iteration yields under the encoding it was opened
  with, and the exception, if any, that ends the iteration early.
  \<open>ConfigParser.read\<close> opens the file with the default encoding and reads it inside
  \<open>try: ... except OSError: continue\<close>: an \<open>OSError\<close> of the open or of the
  reading is dropped and the parser stays as it is then; any other exception passes.
  \<open>read_conf_file_fake_header\<close> opens the file itself, as UTF-8, under no handler.
  A parser holds its default section and its sections in file order.  The library's
  reader is a parameter \<open>read_lines\<close>: it takes the parser and the text, and returns
  the parser as it leaves it and the exception it raises, if any.  \<open>conf_base_dir\<close>
  is always passed (the module \<open>dirs\<close> that gives its default is not modelled).
\<close>

record config_parser =
  cp_defaults :: "(string \<times> string) list"
  cp_sections :: "(string \<times> (string \<times> string) list) list"

datatype os_error = ENOENT | EISDIR | ENOTDIR | EACCES | EPERM | ENAMETOOLONG | ELOOP | EIO

fun oserror_exc :: "os_error \<Rightarrow> pyexc" where
  \<comment> \<open>the exception class Python raises for an error number\<close>
  "oserror_exc ENOENT = FileNotFoundError"
| "oserror_exc EISDIR = IsADirectoryError"
| "oserror_exc ENOTDIR = NotADirectoryError"
| "oserror_exc EACCES = PermissionError"
| "oserror_exc EPERM = PermissionError"
| "oserror_exc ENAMETOOLONG = OSError"
| "oserror_exc ELOOP = OSError"
| "oserror_exc EIO = OSError"

datatype encoding = Locale_default | Utf_8

type_synonym text_stream = "string list \<times> pyexc option"

type_synonym file_system = "string \<Rightarrow> os_error + (encoding \<Rightarrow> text_stream)"

definition py_open :: "file_system \<Rightarrow> string \<Rightarrow> encoding \<Rightarrow> pyexc + text_stream" where
  "py_open fs path enc =
     (if CHR 0x00 \<in> set path then Inl ValueError
      else (case fs path of
              Inl err \<Rightarrow> Inl (oserror_exc err)
            | Inr content \<Rightarrow> Inr (content enc)))"

definition new_config_parser :: config_parser where
  \<comment> \<open>\<open>configparser.ConfigParser()\<close>\<close>
  "new_config_parser = \<lparr> cp_defaults = [], cp_sections = [] \<rparr>"

definition sections :: "config_parser \<Rightarrow> string list" where
  \<comment> \<open>\<open>parser.sections()\<close>\<close>
  "sections cp = map fst (cp_sections cp)"

definition cp_iter :: "config_parser \<Rightarrow> string list" where
  \<comment> \<open>iterating a parser yields the default section's name, then the section names\<close>
  "cp_iter cp = ''DEFAULT'' # sections cp"

definition path_join :: "string \<Rightarrow> string \<Rightarrow> string" where
  \<comment> \<open>\<open>os.path.join(a, b)\<close> of \<open>posixpath\<close>\<close>
  "path_join a b =
     (if b \<noteq> [] \<and> hd b = CHR ''/'' then b
      else if a = [] \<or> last a = CHR ''/'' then a @ b
      else a @ ''/'' @ b)"

definition read_conf_file ::
  "(config_parser \<Rightarrow> text_stream \<Rightarrow> config_parser \<times> pyexc option) \<Rightarrow> file_system \<Rightarrow>
   string \<Rightarrow> string \<Rightarrow> pyexc + config_parser"
where
  "read_conf_file read_lines fs conf_rel_file conf_base_dir =
     (let conf_file = path_join conf_base_dir conf_rel_file;
          parser = new_config_parser
      in case py_open fs conf_file Locale_default of
           Inl e \<Rightarrow> if is_OSError e then Inr parser else Inl e
         | Inr file \<Rightarrow>
             (case read_lines parser file of
                (parser', None) \<Rightarrow> Inr parser'
              | (parser', Some e) \<Rightarrow> if is_OSError e then Inr parser' else Inl e))"

definition read_conf_file_fake_header ::
  "(config_parser \<Rightarrow> text_stream \<Rightarrow> config_parser \<times> pyexc option) \<Rightarrow> file_system \<Rightarrow>
   string \<Rightarrow> string \<Rightarrow> string \<Rightarrow> pyexc + config_parser"
where
  "read_conf_file_fake_header read_lines fs conf_rel_file conf_base_dir fake_section =
     (let conf_file = path_join conf_base_dir conf_rel_file;
          parser = new_config_parser
      in case py_open fs conf_file Utf_8 of
           Inl e \<Rightarrow> Inl e
         | Inr (file, broken) \<Rightarrow>
             (case read_lines parser ((''['' @ fake_section @ '']'') # file, broken) of
                (parser', None) \<Rightarrow> Inr parser'
              | (parser', Some e) \<Rightarrow> Inl e))"

section \<open>\<open>get_matching_secrets_id\<close>\<close>

text \<open>
  \<^verbatim>\<open>
  def get_matching_secrets_id(secrets_cp, submod, main_id):
      for secrets_section_name in secrets_cp:
          try:
              submod_found, id_found = secrets_section_name.split('::')
              if submod_found.strip().lower() == submod.strip().lower() \
                      and id_found.strip().lower() == main_id.strip().lower():
                  return secrets_section_name
          except ValueError:
              continue
      return None
  \<close>
  Unpacking a list into two names raises \<open>ValueError\<close> unless it has exactly two
  elements.  \<open>secrets_try\<close> is the body of the \<open>try\<close> and says whether the
  \<open>return\<close> is reached; the loop catches \<open>ValueError\<close> and nothing else.
\<close>

definition unpack2 :: "string list \<Rightarrow> pyexc + (string \<times> string)" where
  "unpack2 parts = (case parts of [a, b] \<Rightarrow> Inr (a, b) | _ \<Rightarrow> Inl ValueError)"

definition secrets_try :: "string \<Rightarrow> string \<Rightarrow> string \<Rightarrow> pyexc + bool" where
  "secrets_try secrets_section_name submod main_id =
     (case py_split secrets_section_name ''::'' of
        Inl e \<Rightarrow> Inl e
      | Inr parts \<Rightarrow>
          (case unpack2 parts of
             Inl e \<Rightarrow> Inl e
           | Inr (submod_found, id_found) \<Rightarrow>
               Inr (py_lower (py_strip submod_found) = py_lower (py_strip submod)
                    \<and> py_lower (py_strip id_found) = py_lower (py_strip main_id))))"

fun secrets_loop :: "string list \<Rightarrow> string \<Rightarrow> string \<Rightarrow> pyexc + string option" where
  "secrets_loop [] submod main_id = Inr None"
| "secrets_loop (secrets_section_name # rest) submod main_id =
     (case secrets_try secrets_section_name submod main_id of
        Inr found \<Rightarrow>
          if found then Inr (Some secrets_section_name)
          else secrets_loop rest submod main_id
      | Inl e \<Rightarrow>
          if e = ValueError then secrets_loop rest submod main_id else Inl e)"

definition get_matching_secrets_id ::
  "config_parser \<Rightarrow> string \<Rightarrow> string \<Rightarrow> pyexc + string option"
where
  "get_matching_secrets_id secrets_cp submod main_id =
     secrets_loop (cp_iter secrets_cp) submod main_id"

definition same_ignoring_case_and_space :: "string \<Rightarrow> string \<Rightarrow> bool" where
  \<comment> \<open>the specification's comparison: case-insensitive, surrounding whitespace trimmed\<close>
  "same_ignoring_case_and_space a b = (py_lower (py_strip a) = py_lower (py_strip b))"

definition secrets_name_matches :: "string \<Rightarrow> string \<Rightarrow> string \<Rightarrow> bool" where
  \<comment> \<open>the specification's match of a section identifier: it splits on \<open>::\<close> into exactly
      two parts, and both parts compare equal to the query\<close>
  "secrets_name_matches name submod main_id =
     (length (split_on ''::'' name) = 2
      \<and> same_ignoring_case_and_space (split_on ''::'' name ! 0) submod
      \<and> same_ignoring_case_and_space (split_on ''::'' name ! 1) main_id)"

section \<open>The database adapter's base class\<close>

text \<open>
  \<^verbatim>\<open>
  class Database(ABC):
      def __init__(self, env, cp_db_id, cp_secrets_id,
              host, port, database):             # pylint: disable=unused-argument
          self._env = env
          self._cp_db_id = cp_db_id
          self._cp_secrets_id = cp_secrets_id

      def matches_id_criteria(self, db_id, env=None, db_type=None):
          assert db_id is not None
          if db_id != self._cp_db_id:
              return False
          if env is not None and env != self._env:
              return False
          if db_type is not None and db_type not in self.get_type_names():
              return False
          return True
  \<close>
  An object is its attribute dictionary.  The initializer assigns three attributes of
  \<open>self\<close>.  \<open>get_type_names\<close> is abstract: the list a concrete class returns is the
  parameter \<open>type_names\<close>.  The criteria are strings or \<open>None\<close>, as documented.
\<close>

type_synonym 'f pyobj = "string \<rightharpoonup> 'f pyval"

definition Database_init ::
  "'f pyobj \<Rightarrow> 'f pyval \<Rightarrow> 'f pyval \<Rightarrow> 'f pyval \<Rightarrow> 'f pyval \<Rightarrow> 'f pyval \<Rightarrow> 'f pyval \<Rightarrow> 'f pyobj"
where
  "Database_init self env cp_db_id cp_secrets_id host port database =
     self(''_env'' \<mapsto> env, ''_cp_db_id'' \<mapsto> cp_db_id, ''_cp_secrets_id'' \<mapsto> cp_secrets_id)"

definition getattr :: "'f pyobj \<Rightarrow> string \<Rightarrow> pyexc + 'f pyval" where
  "getattr obj name = (case obj name of None \<Rightarrow> Inl AttributeError | Some v \<Rightarrow> Inr v)"

definition matches_id_criteria ::
  "string list \<Rightarrow> 'f pyobj \<Rightarrow> string option \<Rightarrow> string option \<Rightarrow> string option \<Rightarrow> pyexc + bool"
where
  "matches_id_criteria type_names self db_id env db_type =
     (case db_id of
        None \<Rightarrow> Inl AssertionError
      | Some i \<Rightarrow>
          (case getattr self ''_cp_db_id'' of
             Inl x \<Rightarrow> Inl x
           | Inr own_id \<Rightarrow>
               if PyStr i \<noteq> own_id then Inr False
               else (case (case env of
                             None \<Rightarrow> Inr False
                           | Some e \<Rightarrow>
                               (case getattr self ''_env'' of
                                  Inl x \<Rightarrow> Inl x
                                | Inr own_env \<Rightarrow> Inr (PyStr e \<noteq> own_env))) of
                       Inl x \<Rightarrow> Inl x
                     | Inr env_differs \<Rightarrow>
                         if env_differs then Inr False
                         else (case db_type of
                                 None \<Rightarrow> Inr True
                               | Some t \<Rightarrow>
                                   if t \<notin> set type_names then Inr False else Inr True))))"

section \<open>Facts about the builtins\<close>

lemmas str_eval =
  py_strip_def py_strip_chars_def strip_while_def py_isspace_def py_lower_def
  py_lower_char_def char_of_def bit_Suc_0_iff quote_chars_def

lemmas cast_eval =
  cast_var_def cast_var_try_def cast_ok_def int_of_str_def int_isspace_def is_digit_def
  digit_val_def conf_token_def

lemma strip_while_decomp:
  "\<exists>l r. s = l @ strip_while p s @ r \<and> (\<forall>c\<in>set l. p c) \<and> (\<forall>c\<in>set r. p c)"
proof -
  let ?m = "dropWhile p s"
  have m: "?m = rev (dropWhile p (rev ?m)) @ rev (takeWhile p (rev ?m))"
    by (metis rev_append rev_rev_ident takeWhile_dropWhile_id)
  have "s = takeWhile p s @ strip_while p s @ rev (takeWhile p (rev ?m))"
    using m by (simp add: strip_while_def)
  moreover have "\<forall>c\<in>set (takeWhile p s). p c"
    by (auto dest: set_takeWhileD)
  moreover have "\<forall>c\<in>set (rev (takeWhile p (rev ?m))). p c"
    by (auto dest: set_takeWhileD)
  ultimately show ?thesis by blast
qed

lemma last_dropWhile_eq: "dropWhile p xs \<noteq> [] \<Longrightarrow> last (dropWhile p xs) = last xs"
  by (metis last_appendR takeWhile_dropWhile_id)

lemma strip_while_ends:
  assumes "strip_while p s \<noteq> []"
  shows "\<not> p (hd (strip_while p s)) \<and> \<not> p (last (strip_while p s))"
proof -
  let ?m = "dropWhile p s"
  let ?d = "dropWhile p (rev ?m)"
  from assms have d: "?d \<noteq> []" by (simp add: strip_while_def)
  then have m: "?m \<noteq> []" by (metis dropWhile.simps(1) rev_is_Nil_conv)
  have "last (strip_while p s) = hd ?d"
    using d by (simp add: strip_while_def last_rev)
  moreover have "\<not> p (hd ?d)" using d by (rule hd_dropWhile)
  moreover have "hd (strip_while p s) = last ?d"
    using d by (simp add: strip_while_def hd_rev)
  moreover have "last ?d = hd ?m"
    using d m by (simp add: last_dropWhile_eq last_rev)
  moreover have "\<not> p (hd ?m)" using m by (rule hd_dropWhile)
  ultimately show ?thesis by simp
qed



subsection \<open>\<open>int(str(n))\<close> is \<open>n\<close>\<close>









section \<open>Properties of \<open>cast_var\<close>\<close>

lemma cast_var_try_unsupported:
  "cast_type \<noteq> PyCastType CastType_INT \<Longrightarrow> cast_type \<noteq> PyCastType CastType_FLOAT \<Longrightarrow>
   cast_type \<noteq> PyCastType CastType_STRING \<Longrightarrow> cast_var_try fb var cast_type = Inl TypeError"
  by (simp add: cast_var_try_def)

lemma cast_var_str_errors:
  "cast_var fb (PyStr t) k False = Inl e \<Longrightarrow> e = TypeError \<or> e = ValueError"
  by (auto simp: cast_var_def cast_var_try_def split: if_splits sum.splits option.splits)







section \<open>Properties of the file readers\<close>

text \<open>
  Claim C2, as the code has it.  When the joined path cannot be opened because the file
  system answers with an error (no such file, a directory, a name too long),
  \<open>read_conf_file\<close> returns the fresh parser, which has no section, and raises
  nothing, while \<open>read_conf_file_fake_header\<close> raises the error of the open:
  \<open>FileNotFoundError\<close> when there is no such file.  When the joined path holds a NUL
  character, both raise \<open>ValueError\<close>.
\<close>

theorem read_conf_file_unopenable_path:
  "(CHR 0x00 \<notin> set (path_join conf_base_dir conf_rel_file)
      \<and> fs (path_join conf_base_dir conf_rel_file) = Inl err \<longrightarrow>
        read_conf_file read_lines fs conf_rel_file conf_base_dir = Inr new_config_parser
        \<and> read_conf_file_fake_header read_lines fs conf_rel_file conf_base_dir fake_section
            = Inl (oserror_exc err))
   \<and> (CHR 0x00 \<notin> set (path_join conf_base_dir conf_rel_file)
      \<and> fs (path_join conf_base_dir conf_rel_file) = Inl ENOENT \<longrightarrow>
        read_conf_file_fake_header read_lines fs conf_rel_file conf_base_dir fake_section
            = Inl FileNotFoundError)
   \<and> (CHR 0x00 \<in> set (path_join conf_base_dir conf_rel_file) \<longrightarrow>
        read_conf_file read_lines fs conf_rel_file conf_base_dir = Inl ValueError
        \<and> read_conf_file_fake_header read_lines fs conf_rel_file conf_base_dir fake_section
            = Inl ValueError)
   \<and> sections new_config_parser = []"
proof -
  have os: "is_OSError (oserror_exc e)" for e
    by (cases e) (simp_all add: is_OSError_def)
  have v: "\<not> is_OSError ValueError" by (simp add: is_OSError_def)
  show ?thesis
    using v
    by (auto simp: read_conf_file_def read_conf_file_fake_header_def py_open_def os
        sections_def new_config_parser_def)
qed

theorem read_conf_file_unopenable_path_witness:
  "CHR 0x00 \<notin> set (path_join ''/app/config'' ''.secrets.conf'')
   \<and> read_conf_file (\<lambda>p t. (p, None)) (\<lambda>path. Inl ENOENT) ''.secrets.conf'' ''/app/config''
       = Inr new_config_parser
   \<and> read_conf_file (\<lambda>p t. (p, None)) (\<lambda>path. Inl EISDIR) ''.secrets.conf'' ''/app/config''
       = Inr new_config_parser
   \<and> read_conf_file_fake_header (\<lambda>p t. (p, None)) (\<lambda>path. Inl EISDIR) ''.secrets.conf''
       ''/app/config'' ''fake'' = Inl IsADirectoryError
   \<and> read_conf_file_fake_header (\<lambda>p t. (p, None)) (\<lambda>path. Inl ENOENT) ''.secrets.conf''
       ''/app/config'' ''fake'' = Inl FileNotFoundError
   \<and> CHR 0x00 \<in> set (path_join ''/app/config'' [CHR ''a'', CHR 0x00])
   \<and> read_conf_file (\<lambda>p t. (p, None)) (\<lambda>path. Inl ENOENT) [CHR ''a'', CHR 0x00] ''/app/config''
       = Inl ValueError
   \<and> sections new_config_parser = []"
  using
    read_conf_file_unopenable_path
      [of "''/app/config''" "''.secrets.conf''" "\<lambda>path. Inl ENOENT" ENOENT
          "\<lambda>p t. (p, None)" "''fake''"]
    read_conf_file_unopenable_path
      [of "''/app/config''" "''.secrets.conf''" "\<lambda>path. Inl EISDIR" EISDIR
          "\<lambda>p t. (p, None)" "''fake''"]
    read_conf_file_unopenable_path
      [of "''/app/config''" "[CHR ''a'', CHR 0x00]" "\<lambda>path. Inl ENOENT" ENOENT
          "\<lambda>p t. (p, None)" "''fake''"]
  by (simp add: path_join_def)

text \<open>
  Claim C2 as stated fails in both halves: where there is no such file,
  \<open>read_conf_file_fake_header\<close> does not return an empty parser, it raises
  \<open>FileNotFoundError\<close>; and on a path with a NUL character, which names no file,
  \<open>read_conf_file\<close> raises \<open>ValueError\<close>.
\<close>

theorem read_conf_file_fake_header_missing_file_counterexample:
  "read_conf_file_fake_header (\<lambda>p t. (p, None)) (\<lambda>path. Inl ENOENT) ''.secrets.conf''
     ''/app/config'' ''fake'' = Inl FileNotFoundError
   \<and> read_conf_file (\<lambda>p t. (p, None)) (\<lambda>path. Inl ENOENT) [CHR ''a'', CHR 0x00]
     ''/app/config'' = Inl ValueError"
  by (simp add: read_conf_file_fake_header_def read_conf_file_def py_open_def path_join_def
      is_OSError_def)

section \<open>Properties of \<open>matches_id_criteria\<close> and of the initializer\<close>

text \<open>
  Claim C3.  On an instance whose identity fields were set by the initializer,
  \<open>matches_id_criteria\<close> fails its assertion when the id criterion is \<open>None\<close>; with
  an id it returns true exactly when the id equals the instance's, the environment is
  \<open>None\<close> or equals the instance's, and the type is \<open>None\<close> or one of the type names.
\<close>

theorem matches_id_criteria_contract:
  "matches_id_criteria type_names
       (Database_init self0 (PyStr e) (PyStr c) (PyStr s) host port database) None env db_type
     = Inl AssertionError
   \<and> matches_id_criteria type_names
       (Database_init self0 (PyStr e) (PyStr c) (PyStr s) host port database) (Some i) env db_type
     = Inr (i = c \<and> (env = None \<or> env = Some e)
            \<and> (db_type = None \<or> (\<exists>t. db_type = Some t \<and> t \<in> set type_names)))"
  by (auto simp: matches_id_criteria_def Database_init_def getattr_def split: option.splits)

theorem matches_id_criteria_contract_witness:
  "matches_id_criteria [''postgres'', ''pg'']
       (Database_init Map.empty (PyStr ''test'') (PyStr ''mydb'') (PyStr ''database::mydb'')
          (PyStr ''localhost'') (PyInt 5432) (PyStr ''trading'') :: unit pyobj)
       None (Some ''test'') (Some ''postgres'') = Inl AssertionError
   \<and> matches_id_criteria [''postgres'', ''pg'']
       (Database_init Map.empty (PyStr ''test'') (PyStr ''mydb'') (PyStr ''database::mydb'')
          (PyStr ''localhost'') (PyInt 5432) (PyStr ''trading'') :: unit pyobj)
       (Some ''mydb'') (Some ''test'') (Some ''postgres'') = Inr True
   \<and> matches_id_criteria [''postgres'', ''pg'']
       (Database_init Map.empty (PyStr ''test'') (PyStr ''mydb'') (PyStr ''database::mydb'')
          (PyStr ''localhost'') (PyInt 5432) (PyStr ''trading'') :: unit pyobj)
       (Some ''mydb'') None (Some ''mysql'') = Inr False"
  using matches_id_criteria_contract
      [of "[''postgres'', ''pg'']" Map.empty "''test''" "''mydb''" "''database::mydb''"
          "PyStr ''localhost'' :: unit pyval" "PyInt 5432" "PyStr ''trading''"
          "Some ''test''" "Some ''postgres''" "''mydb''"]
    matches_id_criteria_contract
      [of "[''postgres'', ''pg'']" Map.empty "''test''" "''mydb''" "''database::mydb''"
          "PyStr ''localhost'' :: unit pyval" "PyInt 5432" "PyStr ''trading''"
          None "Some ''mysql''" "''mydb''"]
  by simp

text \<open>
  Claim C8, as the code has it.  The initializer stores the environment, the config id
  and the secrets id, as \<open>_env\<close>, \<open>_cp_db_id\<close> and \<open>_cp_secrets_id\<close>; it adds no
  other attribute, and the instance it leaves does not depend on the host, the port or
  the database name it was given.
\<close>

theorem Database_init_identity_only:
  "Database_init self env cp_db_id cp_secrets_id host port database ''_env'' = Some env
   \<and> Database_init self env cp_db_id cp_secrets_id host port database ''_cp_db_id''
       = Some cp_db_id
   \<and> Database_init self env cp_db_id cp_secrets_id host port database ''_cp_secrets_id''
       = Some cp_secrets_id
   \<and> dom (Database_init self env cp_db_id cp_secrets_id host port database)
       = dom self \<union> {''_env'', ''_cp_db_id'', ''_cp_secrets_id''}
   \<and> Database_init self env cp_db_id cp_secrets_id host port database
       = Database_init self env cp_db_id cp_secrets_id host' port' database'"
  by (auto simp: Database_init_def)

text \<open>
  Claim C8 as stated fails: the instance built on a fresh object for the host
  \<open>localhost\<close>, the port 5432 and the database \<open>trading\<close> has no attribute
  \<open>host\<close>, \<open>port\<close> or \<open>database\<close>, and the port is the value of no attribute.
\<close>

theorem Database_init_connection_params_counterexample:
  "(Database_init Map.empty (PyStr ''test'') (PyStr ''mydb'') (PyStr ''database::mydb'')
      (PyStr ''localhost'') (PyInt 5432) (PyStr ''trading'') :: unit pyobj) ''host'' = None
   \<and> (Database_init Map.empty (PyStr ''test'') (PyStr ''mydb'') (PyStr ''database::mydb'')
      (PyStr ''localhost'') (PyInt 5432) (PyStr ''trading'') :: unit pyobj) ''port'' = None
   \<and> (Database_init Map.empty (PyStr ''test'') (PyStr ''mydb'') (PyStr ''database::mydb'')
      (PyStr ''localhost'') (PyInt 5432) (PyStr ''trading'') :: unit pyobj) ''database'' = None
   \<and> PyInt 5432 \<notin> ran (Database_init Map.empty (PyStr ''test'') (PyStr ''mydb'')
      (PyStr ''database::mydb'') (PyStr ''localhost'') (PyInt 5432) (PyStr ''trading'')
        :: unit pyobj)"
  by (auto simp: Database_init_def ran_def)

section \<open>Properties of \<open>get_matching_secrets_id\<close>\<close>

lemma secrets_try_cases:
  "secrets_try n s m =
     (if length (split_on ''::'' n) = 2 then Inr (secrets_name_matches n s m)
      else Inl ValueError)"
  by (auto simp: secrets_try_def py_split_def unpack2_def secrets_name_matches_def
      same_ignoring_case_and_space_def split: list.splits)

lemma secrets_loop_find:
  "secrets_loop names s m = Inr (List.find (\<lambda>n. secrets_name_matches n s m) names)"
  by (induction names) (auto simp: secrets_try_cases secrets_name_matches_def)

lemma find_filter_weaker:
  "(\<And>x. P x \<Longrightarrow> Q x) \<Longrightarrow> List.find P (filter Q xs) = List.find P xs"
  by (induction xs) auto

lemma default_section_never_matches: "\<not> secrets_name_matches ''DEFAULT'' s m"
  by (simp add: secrets_name_matches_def)

text \<open>
  Claim C4.  \<open>get_matching_secrets_id\<close> raises nothing and returns the first name, in
  the parser's iteration order, whose two components on either side of \<open>::\<close> equal the
  queried submodule and id after trimming whitespace and lowering case, on both sides of
  each comparison; \<open>None\<close> when there is none.  The section \<open>" Broker :: MyId "\<close>
  matches the query \<open>("broker", "myid")\<close>.
\<close>

theorem get_matching_secrets_id_first_match:
  "get_matching_secrets_id secrets_cp submod main_id
     = Inr (List.find (\<lambda>name. secrets_name_matches name submod main_id) (cp_iter secrets_cp))
   \<and> secrets_name_matches '' Broker :: MyId '' ''broker'' ''myid''"
  by (simp add: get_matching_secrets_id_def secrets_loop_find secrets_name_matches_def
      same_ignoring_case_and_space_def str_eval)

theorem get_matching_secrets_id_first_match_witness:
  "get_matching_secrets_id
     \<lparr> cp_defaults = [],
       cp_sections = [(''nosep'', []), (''database::myid'', []), ('' Broker :: MyId '', []),
                      (''broker::myid'', [])] \<rparr> ''broker'' ''myid''
   = Inr (Some '' Broker :: MyId '')"
  using get_matching_secrets_id_first_match
    [of "\<lparr> cp_defaults = [],
           cp_sections = [(''nosep'', []), (''database::myid'', []), ('' Broker :: MyId '', []),
                          (''broker::myid'', [])] \<rparr>" "''broker''" "''myid''"]
  by (simp add: cp_iter_def sections_def secrets_name_matches_def
      same_ignoring_case_and_space_def str_eval)

text \<open>
  Claim C5.  \<open>get_matching_secrets_id\<close> never raises.  A name whose split on \<open>::\<close>
  has not exactly two parts is skipped: the loop goes on with the names after it, and
  dropping every such section from the store changes no result.  When no section
  identifier both splits into exactly two parts and matches the query, the result is
  \<open>None\<close>.
\<close>

theorem get_matching_secrets_id_skips_malformed:
  "(\<exists>r. get_matching_secrets_id secrets_cp submod main_id = Inr r)
   \<and> (length (split_on ''::'' name) \<noteq> 2 \<longrightarrow>
        secrets_loop (name # rest) submod main_id = secrets_loop rest submod main_id)
   \<and> get_matching_secrets_id secrets_cp submod main_id
       = get_matching_secrets_id
           (secrets_cp \<lparr> cp_sections :=
              filter (\<lambda>sec. length (split_on ''::'' (fst sec)) = 2) (cp_sections secrets_cp) \<rparr>)
           submod main_id
   \<and> ((\<forall>n \<in> set (sections secrets_cp). \<not> secrets_name_matches n submod main_id) \<longrightarrow>
        get_matching_secrets_id secrets_cp submod main_id = Inr None)"
proof -
  have a: "\<exists>r. get_matching_secrets_id secrets_cp submod main_id = Inr r"
    by (simp add: get_matching_secrets_id_def secrets_loop_find)
  have b: "length (split_on ''::'' name) \<noteq> 2 \<longrightarrow>
        secrets_loop (name # rest) submod main_id = secrets_loop rest submod main_id"
    by (simp add: secrets_try_cases)
  have "List.find (\<lambda>n. secrets_name_matches n submod main_id)
          (filter (\<lambda>n. length (split_on ''::'' n) = 2) (sections secrets_cp))
        = List.find (\<lambda>n. secrets_name_matches n submod main_id) (sections secrets_cp)"
    by (rule find_filter_weaker) (simp add: secrets_name_matches_def)
  moreover have "map fst (filter (\<lambda>sec. length (split_on ''::'' (fst sec)) = 2) secs)
        = filter (\<lambda>n. length (split_on ''::'' n) = 2) (map fst secs)" for secs :: "(string \<times> (string \<times> string) list) list"
    by (simp add: filter_map comp_def)
  ultimately have c: "get_matching_secrets_id secrets_cp submod main_id
       = get_matching_secrets_id
           (secrets_cp \<lparr> cp_sections :=
              filter (\<lambda>sec. length (split_on ''::'' (fst sec)) = 2) (cp_sections secrets_cp) \<rparr>)
           submod main_id"
    by (simp add: get_matching_secrets_id_def secrets_loop_find cp_iter_def sections_def
        default_section_never_matches)
  have d: "(\<forall>n \<in> set (sections secrets_cp). \<not> secrets_name_matches n submod main_id) \<longrightarrow>
        get_matching_secrets_id secrets_cp submod main_id = Inr None"
    by (simp add: get_matching_secrets_id_def secrets_loop_find cp_iter_def
        default_section_never_matches find_None_iff)
  from a b c d show ?thesis by blast
qed

theorem get_matching_secrets_id_skips_malformed_witness:
  "length (split_on ''::'' ''a::b::c'') \<noteq> 2
   \<and> secrets_loop [''a::b::c'', ''broker::myid''] ''broker'' ''myid''
       = secrets_loop [''broker::myid''] ''broker'' ''myid''
   \<and> get_matching_secrets_id
       \<lparr> cp_defaults = [],
         cp_sections = [(''nosep'', []), (''a::b::c'', []), (''broker::other'', [])] \<rparr>
       ''broker'' ''myid'' = Inr None"
  using get_matching_secrets_id_skips_malformed
    [of "\<lparr> cp_defaults = [],
           cp_sections = [(''nosep'', []), (''a::b::c'', []), (''broker::other'', [])] \<rparr>"
        "''broker''" "''myid''" "''a::b::c''" "[''broker::myid'']"]
  by (simp add: get_matching_secrets_id_def cp_iter_def secrets_try_def py_split_def
      unpack2_def sections_def secrets_name_matches_def same_ignoring_case_and_space_def
      str_eval)

section \<open>Properties of \<open>parse_list_from_conf_string\<close>\<close>

lemma parse_list_loop_map_filter:
  "parse_list_loop fb k sq toks acc =
     Inr (acc @ List.map_filter (\<lambda>tok. cast_ok fb k (conf_token sq tok)) toks)"
proof (induction toks arbitrary: acc)
  case Nil
  show ?case by (simp add: List.map_filter_simps)
next
  case (Cons tok toks)
  show ?case
  proof (cases "cast_var fb (PyStr (conf_token sq tok)) k False")
    case (Inl e)
    then have "e = TypeError \<or> e = ValueError" by (rule cast_var_str_errors)
    with Inl Cons show ?thesis by (auto simp: cast_ok_def List.map_filter_simps)
  next
    case (Inr v)
    with Cons show ?thesis by (simp add: cast_ok_def List.map_filter_simps)
  qed
qed

lemma parse_list_eq:
  "s \<noteq> [] \<Longrightarrow> delim \<noteq> [] \<Longrightarrow>
   parse_list_from_conf_string fb (Some s) k delim sq =
     Inr (List.map_filter (\<lambda>tok. cast_ok fb k (conf_token sq tok)) (split_on delim s))"
  by (simp add: parse_list_from_conf_string_def py_split_def parse_list_loop_map_filter)

lemma cast_ok_unsupported:
  "k \<notin> {PyCastType CastType_INT, PyCastType CastType_FLOAT, PyCastType CastType_STRING} \<Longrightarrow>
   cast_ok fb k tok = None"
  by (simp add: cast_ok_def cast_var_def cast_var_try_unsupported)

lemma map_filter_all_None: "(\<And>x. f x = None) \<Longrightarrow> List.map_filter f xs = []"
  by (induction xs) (simp_all add: List.map_filter_simps)



text \<open>
  Claim C7, as the code has it.  With \<open>strip_quotes\<close> the token handed to the cast is
  the raw token trimmed of whitespace, then of every leading and trailing character that
  is \<open>'\<close> or \<open>"\<close>, then of whitespace again.  The quote stripping removes a run of
  quote characters at each end, of any length and whether or not the two ends agree:
  what is left neither starts nor ends with a quote character.
\<close>

theorem parse_list_strip_quotes_all_layers:
  assumes "s \<noteq> []" and "delim \<noteq> []"
  shows "parse_list_from_conf_string fb (Some s) k delim True =
           Inr (List.map_filter
                  (\<lambda>tok. cast_ok fb k (py_strip (py_strip_chars quote_chars (py_strip tok))))
                  (split_on delim s))
       \<and> (\<exists>l r. t = l @ py_strip_chars quote_chars t @ r
               \<and> set l \<subseteq> set quote_chars \<and> set r \<subseteq> set quote_chars)
       \<and> (py_strip_chars quote_chars t = []
            \<or> (hd (py_strip_chars quote_chars t) \<notin> set quote_chars
                \<and> last (py_strip_chars quote_chars t) \<notin> set quote_chars))"
proof -
  have "\<exists>l r. t = l @ py_strip_chars quote_chars t @ r
               \<and> set l \<subseteq> set quote_chars \<and> set r \<subseteq> set quote_chars"
    using strip_while_decomp [of t "\<lambda>c. c \<in> set quote_chars"]
    unfolding py_strip_chars_def by blast
  moreover have "py_strip_chars quote_chars t = []
            \<or> (hd (py_strip_chars quote_chars t) \<notin> set quote_chars
                \<and> last (py_strip_chars quote_chars t) \<notin> set quote_chars)"
    using strip_while_ends [of "\<lambda>c. c \<in> set quote_chars" t]
    unfolding py_strip_chars_def by blast
  ultimately show ?thesis using assms by (simp add: parse_list_eq conf_token_def)
qed

theorem parse_list_strip_quotes_all_layers_witness:
  "[CHR 0x22, CHR 0x27, CHR ''a'', CHR 0x27, CHR 0x22, CHR '','', CHR 0x27, CHR ''b'', CHR 0x22]
     \<noteq> [] \<and> '','' \<noteq> []
   \<and> parse_list_from_conf_string no_float
       (Some [CHR 0x22, CHR 0x27, CHR ''a'', CHR 0x27, CHR 0x22, CHR '','',
              CHR 0x27, CHR ''b'', CHR 0x22])
       (PyCastType CastType_STRING) '','' True = Inr [PyStr ''a'', PyStr ''b'']"
  using parse_list_strip_quotes_all_layers
    [of "[CHR 0x22, CHR 0x27, CHR ''a'', CHR 0x27, CHR 0x22, CHR '','',
          CHR 0x27, CHR ''b'', CHR 0x22]" "'',''" no_float "PyCastType CastType_STRING"]
  by (simp add: cast_eval str_eval List.map_filter_simps)

text \<open>
  Claim C7 as stated fails.  The token \<open>''a''\<close> (two layers of single quotes) is cast
  as \<open>a\<close>, where one layer stripped leaves \<open>'a'\<close>; the token \<open>'a"\<close> (mismatched
  quotes) is cast as \<open>a\<close>, where stripping only matching quotes leaves it whole.
\<close>

theorem parse_list_strip_quotes_counterexample:
  "parse_list_from_conf_string no_float
       (Some [CHR 0x27, CHR 0x27, CHR ''a'', CHR 0x27, CHR 0x27])
       (PyCastType CastType_STRING) '','' True = Inr [PyStr ''a'']
   \<and> List.map_filter
       (\<lambda>tok. cast_ok no_float (PyCastType CastType_STRING)
                (spec_strip_one_quote_layer (py_strip tok)))
       (split_on '','' [CHR 0x27, CHR 0x27, CHR ''a'', CHR 0x27, CHR 0x27])
       = [PyStr [CHR 0x27, CHR ''a'', CHR 0x27]]
   \<and> parse_list_from_conf_string no_float (Some [CHR 0x27, CHR ''a'', CHR 0x22])
       (PyCastType CastType_STRING) '','' True = Inr [PyStr ''a'']
   \<and> List.map_filter
       (\<lambda>tok. cast_ok no_float (PyCastType CastType_STRING)
                (spec_strip_one_quote_layer (py_strip tok)))
       (split_on '','' [CHR 0x27, CHR ''a'', CHR 0x22])
       = [PyStr [CHR 0x27, CHR ''a'', CHR 0x22]]"
  by (simp add: parse_list_eq spec_strip_one_quote_layer_def cast_eval str_eval
      List.map_filter_simps)

text \<open>
  Claim C10, as the code has it.  With a non-empty delimiter, or with \<open>conf_str\<close>
  \<open>None\<close> or empty, \<open>parse_list_from_conf_string\<close> raises nothing, whatever the
  cast type and the \<open>strip_quotes\<close> flag; with a cast type that is none of the three
  members of \<open>CastType\<close> every token is dropped and the result is the empty list.
\<close>

theorem parse_list_from_conf_string_never_raises:
  assumes "delim \<noteq> [] \<or> conf_str = None \<or> conf_str = Some []"
  shows "(\<exists>list_out. parse_list_from_conf_string fb conf_str k delim sq = Inr list_out)
       \<and> (k \<notin> {PyCastType CastType_INT, PyCastType CastType_FLOAT, PyCastType CastType_STRING}
            \<longrightarrow> parse_list_from_conf_string fb conf_str k delim sq = Inr [])"
proof (cases "conf_str = None \<or> conf_str = Some []")
  case True
  then show ?thesis by (auto simp: parse_list_from_conf_string_def)
next
  case False
  then obtain s where s: "conf_str = Some s" "s \<noteq> []" by auto
  with False assms have d: "delim \<noteq> []" by simp
  show ?thesis
    using s d by (simp add: parse_list_eq map_filter_all_None cast_ok_unsupported)
qed

theorem parse_list_from_conf_string_never_raises_witness:
  "'';'' \<noteq> []
   \<and> parse_list_from_conf_string no_float (Some ''a;b'') (PyStr ''int'') '';'' True = Inr []
   \<and> (PyStr ''int'' :: unit pyval)
       \<notin> {PyCastType CastType_INT, PyCastType CastType_FLOAT, PyCastType CastType_STRING}"
  using parse_list_from_conf_string_never_raises
    [of "'';''" "Some ''a;b''" no_float "PyStr ''int''" True]
  by simp

text \<open>
  Claim C10 as stated fails at the empty delimiter: \<open>conf_str.split('')\<close> raises
  \<open>ValueError\<close> before the loop, outside the \<open>try\<close>.
\<close>

theorem parse_list_empty_delim_counterexample:
  "parse_list_from_conf_string no_float (Some ''a,b'') (PyCastType CastType_STRING) [] False
     = Inl ValueError"
  by (simp add: parse_list_from_conf_string_def py_split_def)

end
